theory Spec2Isabelle
  imports Complex_Main "HOL-Library.Multiset"
begin

section \<open>Conventions of the embedding\<close>

text \<open>
  The repository is JavaScript. Its numbers are modelled as \<^typ>\<open>real\<close> (frame indices and
  counts that the code only ever uses as array indices or loop counters are \<^typ>\<open>nat\<close>), so
  every statement below is about exact arithmetic. Where JavaScript would produce a value
  that is not a number (\<open>0 / 0\<close>) or \<open>undefined\<close> (an array read out of range), the model
  returns \<open>None\<close> instead of HOL's unspecified value.
\<close>

definition nthJS :: "'a list \<Rightarrow> nat \<Rightarrow> 'a option" where
  \<comment> \<open>\<open>xs[i]\<close>: \<open>undefined\<close> (here \<open>None\<close>) when \<open>i\<close> is not an index of \<open>xs\<close>.\<close>
  "nthJS xs i = (if i < length xs then Some (xs ! i) else None)"

section \<open>GeminiIntegration._sampleFrames (src/src/loopOptimizer.js)\<close>

text \<open>
  \<^verbatim>\<open>
  _sampleFrames(frames, maxCount) {
    if (frames.length <= maxCount) return frames;
    const sampledFrames = [];
    const step = Math.floor(frames.length / maxCount);
    for (let i = 0; i < maxCount; i++) {
      sampledFrames.push(frames[i * step]);
    }
    return sampledFrames;
  }
  \<close>
  The loop is the tail-recursive \<open>sampleLoop\<close>; the array under construction is its last
  argument. Array elements are \<open>'a option\<close> because \<open>frames[i * step]\<close> may be \<open>undefined\<close>.
\<close>

function sampleLoop :: "'a list \<Rightarrow> nat \<Rightarrow> nat \<Rightarrow> nat \<Rightarrow> 'a option list \<Rightarrow> 'a option list" where
  "sampleLoop frames step maxCount i sampledFrames =
     (if i < maxCount
      then sampleLoop frames step maxCount (Suc i) (sampledFrames @ [nthJS frames (i * step)])
      else sampledFrames)"
  by pat_completeness auto
termination
  by (relation "measure (\<lambda>(frames, step, maxCount, i, sampledFrames). maxCount - i)") auto

declare sampleLoop.simps [simp del]

definition sampleFrames :: "'a list \<Rightarrow> nat \<Rightarrow> 'a option list" where
  "sampleFrames frames maxCount =
     (if length frames \<le> maxCount then map Some frames
      else (let step = length frames div maxCount
            in sampleLoop frames step maxCount 0 []))"

section \<open>LoopAnalyzer._calculateSimilarityMatrix (src/src/core/media-analyzer.js)\<close>

type_synonym matrix = "real list list"

text \<open>
  \<open>matrix[i][j] = v\<close>. Both loops below keep \<open>i\<close> and \<open>j\<close> under \<open>frameCount\<close>, the
  dimension the matrix is created with, so no write extends an array.
\<close>

definition setCell :: "matrix \<Rightarrow> nat \<Rightarrow> nat \<Rightarrow> real \<Rightarrow> matrix" where
  "setCell matrix i j v = matrix[i := (matrix ! i)[j := v]]"

text \<open>
  \<^verbatim>\<open>
  for (let i = 0; i < frameCount; i++) {
    for (let j = i; j < frameCount; j++) {
      if (i === j) {
        matrix[i][j] = 1;
      } else {
        const similarity = 1 - (Math.abs(i - j) / frameCount);
        matrix[i][j] = similarity;
        matrix[j][i] = similarity;
      }
    }
  }
  \<close>
\<close>

function similarityInner :: "nat \<Rightarrow> nat \<Rightarrow> nat \<Rightarrow> matrix \<Rightarrow> matrix" where
  "similarityInner frameCount i j matrix =
     (if j < frameCount
      then similarityInner frameCount i (Suc j)
             (if i = j then setCell matrix i j 1
              else (let similarity = 1 - \<bar>real_of_int (int i - int j)\<bar> / real frameCount
                    in setCell (setCell matrix i j similarity) j i similarity))
      else matrix)"
  by pat_completeness auto
termination
  by (relation "measure (\<lambda>(frameCount, i, j, matrix). frameCount - j)") auto

declare similarityInner.simps [simp del]

function similarityOuter :: "nat \<Rightarrow> nat \<Rightarrow> matrix \<Rightarrow> matrix" where
  "similarityOuter frameCount i matrix =
     (if i < frameCount
      then similarityOuter frameCount (Suc i) (similarityInner frameCount i i matrix)
      else matrix)"
  by pat_completeness auto
termination
  by (relation "measure (\<lambda>(frameCount, i, matrix). frameCount - i)") auto

declare similarityOuter.simps [simp del]

text \<open>
  \<open>this.frameBuffer\<close> is \<open>None\<close> when it is \<open>null\<close>; the function reads only its length.
  The initial matrix is \<open>Array(frameCount).fill().map(() => Array(frameCount).fill(0))\<close>.
\<close>

definition calculateSimilarityMatrix :: "'f list option \<Rightarrow> matrix" where
  "calculateSimilarityMatrix frameBuffer =
     (case frameBuffer of
        None \<Rightarrow> []
      | Some fb \<Rightarrow>
          if length fb = 0 then []
          else (let frameCount = length fb;
                    matrix = replicate frameCount (replicate frameCount 0)
                in similarityOuter frameCount 0 matrix))"

section \<open>LoopAnalyzer._findLoopCandidates\<close>

text \<open>
  A suggestion of the Gemini analysis and a loop candidate, with the fields the code gives
  them. \<open>sTransitionType\<close> is \<open>None\<close> when the suggestion has no \<open>transitionType\<close>.
\<close>

record suggestion =
  sStartFrame :: real
  sEndFrame :: real
  confidence :: real
  sTransitionType :: "string option"

record candidate =
  startFrame :: real
  endFrame :: real
  startTime :: real
  endTime :: real
  duration :: real
  similarity :: real
  source :: string
  transitionType :: string

definition frameRate :: real where
  "frameRate = 30"

definition minFrames :: nat where
  "minFrames = nat \<lfloor>frameRate * 2\<rfloor>"

definition maxFrames :: nat where
  "maxFrames = nat \<lfloor>frameRate * 15\<rfloor>"

text \<open>
  The object pushed for a suggestion. \<open>suggestion.transitionType || 'cut'\<close> yields \<open>'cut'\<close>
  for a missing and for an empty transition type.
\<close>

definition geminiCandidate :: "suggestion \<Rightarrow> candidate" where
  "geminiCandidate suggestion =
     \<lparr> startFrame = sStartFrame suggestion,
       endFrame = sEndFrame suggestion,
       startTime = sStartFrame suggestion / frameRate,
       endTime = sEndFrame suggestion / frameRate,
       duration = (sEndFrame suggestion - sStartFrame suggestion) / frameRate,
       similarity = confidence suggestion,
       source = ''gemini'',
       transitionType =
         (case sTransitionType suggestion of
            None \<Rightarrow> ''cut''
          | Some t \<Rightarrow> if t = [] then ''cut'' else t) \<rparr>"

text \<open>
  The object pushed for a pair of frames whose similarity passes the threshold. The code
  computes \<open>startTime\<close>, \<open>endTime\<close> and \<open>duration\<close> by three separate divisions, each
  rounded on its own; no statement below relates \<open>duration\<close> to \<open>endTime - startTime\<close>.
\<close>

definition algorithmCandidate :: "nat \<Rightarrow> nat \<Rightarrow> real \<Rightarrow> candidate" where
  "algorithmCandidate sf ef sim =
     \<lparr> startFrame = real sf,
       endFrame = real ef,
       startTime = real sf / frameRate,
       endTime = real ef / frameRate,
       duration = (real ef - real sf) / frameRate,
       similarity = sim,
       source = ''algorithm'',
       transitionType = (if sim > 0.9 then ''cut'' else ''crossfade'') \<rparr>"

text \<open>
  \<open>similarityMatrix[startFrame][endFrame]\<close>; \<open>None\<close> is \<open>undefined\<close>, for which the
  comparison \<open>similarity > 0.8\<close> is false. The row index is always below the number of rows.
\<close>

definition matrixAt :: "matrix \<Rightarrow> nat \<Rightarrow> nat \<Rightarrow> real option" where
  "matrixAt m i j = (case nthJS m i of None \<Rightarrow> None | Some row \<Rightarrow> nthJS row j)"

text \<open>
  \<^verbatim>\<open>
  for (let startFrame = 0; startFrame < frameCount - minFrames; startFrame++) {
    for (let endFrame = startFrame + minFrames;
         endFrame < Math.min(frameCount, startFrame + maxFrames);
         endFrame++) {
      const similarity = similarityMatrix[startFrame][endFrame];
      if (similarity > 0.8) { candidates.push({ ... }); }
    }
  }
  \<close>
\<close>

function candidatesInner ::
  "matrix \<Rightarrow> nat \<Rightarrow> nat \<Rightarrow> nat \<Rightarrow> candidate list \<Rightarrow> candidate list" where
  "candidatesInner similarityMatrix frameCount sf ef candidates =
     (if ef < min frameCount (sf + maxFrames)
      then candidatesInner similarityMatrix frameCount sf (Suc ef)
             (case matrixAt similarityMatrix sf ef of
                None \<Rightarrow> candidates
              | Some sim \<Rightarrow>
                  if sim > 0.8 then candidates @ [algorithmCandidate sf ef sim]
                  else candidates)
      else candidates)"
  by pat_completeness auto
termination
  by (relation "measure (\<lambda>(m, frameCount, sf, ef, cs). min frameCount (sf + maxFrames) - ef)")
     auto

declare candidatesInner.simps [simp del]

function candidatesOuter :: "matrix \<Rightarrow> nat \<Rightarrow> nat \<Rightarrow> candidate list \<Rightarrow> candidate list" where
  "candidatesOuter similarityMatrix frameCount sf candidates =
     (if int sf < int frameCount - int minFrames
      then candidatesOuter similarityMatrix frameCount (Suc sf)
             (candidatesInner similarityMatrix frameCount sf (sf + minFrames) candidates)
      else candidates)"
  by pat_completeness auto
termination
  by (relation "measure (\<lambda>(m, frameCount, sf, cs). frameCount - sf)") auto

declare candidatesOuter.simps [simp del]

text \<open>
  The second argument is \<open>geminiAnalysis.suggestions\<close>; a missing list and an empty one
  take the same branch, so both are the empty list here.
\<close>

definition findLoopCandidates :: "matrix \<Rightarrow> suggestion list \<Rightarrow> candidate list" where
  "findLoopCandidates similarityMatrix suggestions =
     (let candidates = map geminiCandidate suggestions
      in if length similarityMatrix > 0
         then candidatesOuter similarityMatrix (length similarityMatrix) 0 candidates
         else candidates)"

section \<open>LoopAnalyzer._rankLoopCandidates\<close>

record scored_candidate = candidate +
  score :: real

text \<open>The callback of \<open>candidates.map\<close>: \<open>{...candidate, score: Math.min(1, Math.max(0, score))}\<close>.\<close>

definition scoreCandidate :: "candidate \<Rightarrow> scored_candidate" where
  "scoreCandidate c =
     (let durationScore = 1 - \<bar>duration c - 5\<bar> / 10;
          sourceBoost = (if source c = ''gemini'' then 0.1 else 0);
          sc = similarity c * 0.6 + durationScore * 0.3 + sourceBoost
      in candidate.extend c (scored_candidate.fields (min 1 (max 0 sc))))"

text \<open>
  \<open>Array.prototype.sort\<close> with a comparator is a stable sort: of two elements the
  comparator does not separate (\<open>cmp a b = 0\<close>), the one earlier in the input stays
  earlier. For a comparator that is a total preorder this fixes the result, and insertion
  from the right computes it.
\<close>

fun insertSorted :: "('a \<Rightarrow> 'a \<Rightarrow> real) \<Rightarrow> 'a \<Rightarrow> 'a list \<Rightarrow> 'a list" where
  "insertSorted cmp x [] = [x]"
| "insertSorted cmp x (y # ys) =
     (if cmp x y \<le> 0 then x # y # ys else y # insertSorted cmp x ys)"

fun sortJS :: "('a \<Rightarrow> 'a \<Rightarrow> real) \<Rightarrow> 'a list \<Rightarrow> 'a list" where
  "sortJS cmp [] = []"
| "sortJS cmp (x # xs) = insertSorted cmp x (sortJS cmp xs)"

text \<open>The comparator \<open>(a, b) => b.score - a.score\<close>.\<close>

definition compareScore :: "scored_candidate \<Rightarrow> scored_candidate \<Rightarrow> real" where
  "compareScore a b = score b - score a"

definition rankLoopCandidates :: "candidate list \<Rightarrow> scored_candidate list" where
  "rankLoopCandidates candidates = sortJS compareScore (map scoreCandidate candidates)"

section \<open>LoopAnalyzer.analyzeMedia\<close>

text \<open>
  The analyzer's state: \<open>frameBuffer\<close> (an array, or \<open>None\<close> for \<open>null\<close>) and \<open>audioBuffer\<close>.
  An empty array is not \<open>null\<close>: \<open>!this.frameBuffer\<close> is false for it.
\<close>

record audio_buffer =
  abSampleRate :: nat
  abDuration :: real
  abChannels :: nat

record 'f loop_analyzer =
  frameBuffer :: "'f list option"
  audioBuffer :: "audio_buffer option"

record media_info =
  miFrameCount :: nat
  miDuration :: real

record analysis_results =
  mediaInfo :: media_info
  loopCandidates :: "scored_candidate list"
  bestLoopPoint :: "scored_candidate option"

datatype error = NoMediaLoaded | MediaProcessingFailed

text \<open>
  The client that \<open>_initializeGeminiClient\<close> installs answers with one suggestion computed
  from the frame count.
\<close>

definition stubGeminiSuggestions :: "nat \<Rightarrow> suggestion list" where
  "stubGeminiSuggestions n =
     [\<lparr> sStartFrame = of_int \<lfloor>real n * 0.2\<rfloor>,
        sEndFrame = of_int \<lfloor>real n * 0.8\<rfloor>,
        confidence = 0.92,
        sTransitionType = Some ''crossfade'' \<rparr>]"

text \<open>
  \<open>analyzeMedia\<close> awaits \<open>_analyzeWithGemini\<close>, a call to an external service; its
  \<open>suggestions\<close> are the second argument here. Of the result, the timestamp, the echoed
  options and the content analysis are left out. \<open>rankedCandidates[0]\<close> is \<open>undefined\<close>
  (\<open>None\<close>) for an empty list. The only \<open>throw\<close> is the first statement.
\<close>

definition analyzeMedia :: "'f loop_analyzer \<Rightarrow> suggestion list \<Rightarrow> error + analysis_results" where
  "analyzeMedia analyzer suggestions =
     (if frameBuffer analyzer = None \<and> audioBuffer analyzer = None then Inl NoMediaLoaded
      else
        (let similarityMatrix = calculateSimilarityMatrix (frameBuffer analyzer);
             cands = findLoopCandidates similarityMatrix suggestions;
             rankedCandidates = rankLoopCandidates cands
         in Inr \<lparr> mediaInfo =
                    \<lparr> miFrameCount =
                        (case frameBuffer analyzer of None \<Rightarrow> 0 | Some fb \<Rightarrow> length fb),
                      miDuration =
                        (case frameBuffer analyzer of
                           Some fb \<Rightarrow> real (length fb) / 30
                         | None \<Rightarrow>
                             (case audioBuffer analyzer of
                                Some ab \<Rightarrow> abDuration ab
                              | None \<Rightarrow> 0)) \<rparr>,
                  loopCandidates = rankedCandidates,
                  bestLoopPoint = nthJS rankedCandidates 0 \<rparr>))"

section \<open>LoopOptimizer.processMedia (src/src/loopOptimizer.js)\<close>

record quality_metrics =
  seamlessScore :: real
  compressionRatio :: real
  artifactRating :: real

record loop_metadata =
  loopStart :: real
  loopEnd :: real
  qualityMetrics :: quality_metrics

text \<open>The two metrics that the placeholder \<open>OutputGenerator.generateOutput\<close> reports.\<close>

definition outputCompressionRatio :: real where
  "outputCompressionRatio = 0.7"

definition outputArtifactRating :: real where
  "outputArtifactRating = 92"

text \<open>
  \<open>processMedia\<close> after the media is loaded, reduced to \<open>loopMetadata\<close> of its result.
  Every exception inside its \<open>try\<close> is rethrown as \<open>Media processing failed\<close>: the one of
  \<open>analyzeMedia\<close>, and the \<open>TypeError\<close> of reading \<open>bestLoopPoint.startTime\<close> when
  \<open>bestLoopPoint\<close> is \<open>undefined\<close>.
\<close>

definition processMedia :: "'f loop_analyzer \<Rightarrow> suggestion list \<Rightarrow> error + loop_metadata" where
  "processMedia analyzer suggestions =
     (case analyzeMedia analyzer suggestions of
        Inl e \<Rightarrow> Inl MediaProcessingFailed
      | Inr analysisResults \<Rightarrow>
          (case bestLoopPoint analysisResults of
             None \<Rightarrow> Inl MediaProcessingFailed
           | Some best \<Rightarrow>
               Inr \<lparr> loopStart = startTime best,
                     loopEnd = endTime best,
                     qualityMetrics =
                       \<lparr> seamlessScore = score best * 100,
                         compressionRatio = outputCompressionRatio,
                         artifactRating = outputArtifactRating \<rparr> \<rparr>))"

section \<open>TransitionEngine.calculateOptimalTransition (src/unnamed/part_001)\<close>






section \<open>createBlendedFrames and blendTwoFrames (src/unnamed/part_003)\<close>

text \<open>
  The frames are 8-bit images of one video: a frame is the list of its pixel values, each
  in \<open>0..255\<close>. \<open>blendTwoFrames\<close> runs ffmpeg's \<open>blend\<close> filter with the expression
  \<open>A*(1-alpha)+B*alpha\<close>, \<open>A\<close> a pixel of the first input and \<open>B\<close> the pixel of the second
  at the same place; ffmpeg stores the value of the expression as an 8-bit pixel, cutting
  off its fraction, and stores \<open>0\<close> when the value is not a number. It fails when the two
  inputs differ in size, and the promise of \<open>blendTwoFrames\<close> is then rejected. For a
  weight strictly between \<open>0\<close> and \<open>1\<close> the pixel below is the one of exact arithmetic; at
  the weights \<open>0\<close> and \<open>1\<close> it is the code's pixel.
\<close>

type_synonym frame = "nat list"

datatype blend_error = NotEnoughFrames | FfmpegFailed

text \<open>
  \<open>i / (frameCount - 1)\<close>. JavaScript's \<open>0 / 0\<close> is \<open>NaN\<close> and \<open>x / 0\<close> is infinite for
  \<open>x \<noteq> 0\<close>: both are \<open>None\<close>.
\<close>

definition divJS :: "real \<Rightarrow> real \<Rightarrow> real option" where
  "divJS x y = (if y = 0 then None else Some (x / y))"

definition blendPixel :: "real option \<Rightarrow> nat \<Rightarrow> nat \<Rightarrow> nat" where
  "blendPixel alpha A B =
     (case alpha of
        None \<Rightarrow> 0
      | Some a \<Rightarrow> nat \<lfloor>real A * (1 - a) + real B * a\<rfloor>)"

definition blendTwoFrames :: "frame \<Rightarrow> frame \<Rightarrow> real option \<Rightarrow> blend_error + frame" where
  "blendTwoFrames frame1 frame2 alpha =
     (if length frame1 \<noteq> length frame2 then Inl FfmpegFailed
      else Inr (map (\<lambda>(A, B). blendPixel alpha A B) (zip frame1 frame2)))"

text \<open>
  \<^verbatim>\<open>
  for (let i = 0; i < frameCount; i++) {
    const alpha = i / (frameCount - 1);
    const startFrame = path.join(startFramesDir, startFrames[i]);
    const endFrame = path.join(endFramesDir, endFrames[endFrames.length - frameCount + i]);
    const outputFrame = path.join(blendedFramesDir, `frame-${String(i+1).padStart(4, '0')}.png`);
    blendPromises.push(blendTwoFrames(startFrame, endFrame, outputFrame, alpha));
  }
  await Promise.all(blendPromises);
  return true;
  \<close>
  The loop collects the outcome of each blend, in the order of the output names
  \<open>frame-0001.png\<close>, \<open>frame-0002.png\<close>, ... . The caller of the loop has checked that both
  lists hold \<open>frameCount\<close> frames. \<open>Promise.all\<close> rejects when a blend was rejected;
  otherwise \<open>createBlendedFrames\<close> returns \<open>true\<close>, and the model returns the frames it
  has written to \<open>blendedFramesDir\<close>.
\<close>

function blendLoop ::
  "frame list \<Rightarrow> frame list \<Rightarrow> nat \<Rightarrow> nat \<Rightarrow> (blend_error + frame) list \<Rightarrow>
   (blend_error + frame) list" where
  "blendLoop startFrames endFrames frameCount i blendPromises =
     (if i < frameCount
      then (let alpha = divJS (real i) (real_of_int (int frameCount - 1));
                startFrame = startFrames ! i;
                endFrame = endFrames ! (length endFrames - frameCount + i)
            in blendLoop startFrames endFrames frameCount (Suc i)
                 (blendPromises @ [blendTwoFrames startFrame endFrame alpha]))
      else blendPromises)"
  by pat_completeness auto
termination
  by (relation "measure (\<lambda>(startFrames, endFrames, frameCount, i, blendPromises). frameCount - i)")
     auto

declare blendLoop.simps [simp del]

fun promiseAll :: "(blend_error + frame) list \<Rightarrow> blend_error + frame list" where
  "promiseAll [] = Inr []"
| "promiseAll (Inl e # ps) = Inl e"
| "promiseAll (Inr f # ps) = (case promiseAll ps of Inl e \<Rightarrow> Inl e | Inr fs \<Rightarrow> Inr (f # fs))"

definition createBlendedFrames :: "frame list \<Rightarrow> frame list \<Rightarrow> nat \<Rightarrow> blend_error + frame list" where
  "createBlendedFrames startFrames endFrames frameCount =
     (if length startFrames < frameCount \<or> length endFrames < frameCount
      then Inl NotEnoughFrames
      else promiseAll (blendLoop startFrames endFrames frameCount 0 []))"

section \<open>The formulas of the specification\<close>

text \<open>
  The specification's scoring function, following its words: \<open>durationFit = max(0, 1 -
  |duration - idealDuration| / (2 * idealDuration))\<close>, \<open>sourceBoost = 0.1\<close> for an advisory
  candidate, the sum clamped to \<open>[0,1]\<close>.
\<close>

definition specDurationFit :: "real \<Rightarrow> real \<Rightarrow> real" where
  "specDurationFit idealDuration d = max 0 (1 - \<bar>d - idealDuration\<bar> / (2 * idealDuration))"

definition specScore :: "real \<Rightarrow> candidate \<Rightarrow> real" where
  "specScore idealDuration c =
     min 1 (max 0 (0.6 * similarity c + 0.3 * specDurationFit idealDuration (duration c)
                   + (if source c = ''gemini'' then 0.1 else 0)))"

text \<open>The specification's \<open>round(candidate.score * 100)\<close>, with \<open>Math.round\<close> for \<open>round\<close>.\<close>

definition specSeamlessScore :: "real \<Rightarrow> int" where
  "specSeamlessScore sc = \<lfloor>sc * 100 + 1 / 2\<rfloor>"

section \<open>Auxiliary notions for the proofs\<close>

text \<open>
  The entry that the matrix builder computes for the pair \<open>(a, b)\<close> of \<open>n\<close> frames, and
  the shape of an \<open>n \<times> n\<close> matrix.
\<close>

definition simVal :: "nat \<Rightarrow> nat \<Rightarrow> nat \<Rightarrow> real" where
  "simVal n a b = (if a = b then 1 else 1 - \<bar>real_of_int (int a - int b)\<bar> / real n)"

definition squareOf :: "nat \<Rightarrow> matrix \<Rightarrow> bool" where
  "squareOf n m \<longleftrightarrow> length m = n \<and> (\<forall>r \<in> set m. length r = n)"

text \<open>
  The candidates that the two loops of \<open>_findLoopCandidates\<close> push for one pair of frames,
  and for all the pairs they visit, in the order of the visits.
\<close>

definition algoAt :: "matrix \<Rightarrow> nat \<Rightarrow> nat \<Rightarrow> candidate list" where
  "algoAt m sf ef =
     (case matrixAt m sf ef of
        None \<Rightarrow> []
      | Some sim \<Rightarrow> if sim > 0.8 then [algorithmCandidate sf ef sim] else [])"

definition algoPart :: "matrix \<Rightarrow> candidate list" where
  "algoPart m =
     concat (map (\<lambda>sf. concat (map (algoAt m sf) [sf + minFrames..<min (length m) (sf + maxFrames)]))
       [0..<length m - minFrames])"

section \<open>Properties of the frame sampler\<close>

lemma sampleLoop_eq:
  "i \<le> maxCount \<Longrightarrow>
   sampleLoop frames step maxCount i acc =
     acc @ map (\<lambda>k. nthJS frames (k * step)) [i..<maxCount]"
proof (induction frames step maxCount i acc rule: sampleLoop.induct)
  case (1 frames step maxCount i acc)
  show ?case
  proof (cases "i < maxCount")
    case True
    then have "sampleLoop frames step maxCount i acc =
        sampleLoop frames step maxCount (Suc i) (acc @ [nthJS frames (i * step)])"
      by (subst sampleLoop.simps) simp
    also have "\<dots> = (acc @ [nthJS frames (i * step)]) @
        map (\<lambda>k. nthJS frames (k * step)) [Suc i..<maxCount]"
      using "1.IH" [OF True] True by simp
    also have "\<dots> = acc @ map (\<lambda>k. nthJS frames (k * step)) [i..<maxCount]"
      using True by (simp add: upt_conv_Cons)
    finally show ?thesis .
  next
    case False
    with "1.prems" have "i = maxCount" by simp
    then show ?thesis by (subst sampleLoop.simps) simp
  qed
qed

lemma sample_index_in_range:
  fixes n maxCount i :: nat
  assumes "maxCount < n" and "i < maxCount"
  shows "i * (n div maxCount) < n"
proof -
  have pos: "0 < maxCount" using assms by simp
  have "i * (n div maxCount) < maxCount * (n div maxCount)"
  proof -
    have "0 < n div maxCount" using assms pos by (simp add: div_greater_zero_iff)
    then show ?thesis using assms(2) by simp
  qed
  also have "\<dots> \<le> n" by simp
  finally show ?thesis .
qed

text \<open>
  C10. For a non-empty \<open>frames\<close> and a positive \<open>maxCount\<close>: when \<open>frames.length \<le> maxCount\<close>
  the sampler returns the input unchanged; otherwise it returns exactly \<open>maxCount\<close> frames,
  the \<open>i\<close>-th of them being the input frame at index \<open>i * floor(length / maxCount)\<close>, an
  index of the input, for \<open>i = 0 .. maxCount - 1\<close> in this order; the step
  \<open>floor(length / maxCount)\<close> is positive, so the indices increase and the frames keep
  their order.
\<close>

theorem sampleFrames_spec:
  assumes "frames \<noteq> []" and "0 < maxCount"
  shows "(length frames \<le> maxCount \<longrightarrow> sampleFrames frames maxCount = map Some frames) \<and>
         (maxCount < length frames \<longrightarrow>
            length (sampleFrames frames maxCount) = maxCount \<and>
            sampleFrames frames maxCount =
              map (\<lambda>i. Some (frames ! (i * (length frames div maxCount)))) [0..<maxCount] \<and>
            0 < length frames div maxCount \<and>
            (\<forall>i < maxCount. i * (length frames div maxCount) < length frames))"
proof (intro conjI impI)
  assume "length frames \<le> maxCount"
  then show "sampleFrames frames maxCount = map Some frames"
    by (simp add: sampleFrames_def)
next
  assume big: "maxCount < length frames"
  have rng: "\<forall>i < maxCount. i * (length frames div maxCount) < length frames"
    using sample_index_in_range [OF big] by blast
  have "sampleFrames frames maxCount =
      map (\<lambda>k. nthJS frames (k * (length frames div maxCount))) [0..<maxCount]"
    using big by (simp add: sampleFrames_def sampleLoop_eq)
  also have "\<dots> = map (\<lambda>i. Some (frames ! (i * (length frames div maxCount)))) [0..<maxCount]"
    using rng by (simp add: nthJS_def)
  finally show eq: "sampleFrames frames maxCount =
      map (\<lambda>i. Some (frames ! (i * (length frames div maxCount)))) [0..<maxCount]" .
  then show "length (sampleFrames frames maxCount) = maxCount" by simp
  show "0 < length frames div maxCount"
    using big assms(2) by (simp add: div_greater_zero_iff)
  show "\<forall>i < maxCount. i * (length frames div maxCount) < length frames" by (rule rng)
qed

text \<open>
  Seven frames are sampled down to three with step \<open>2\<close>; two frames are returned as they are.
\<close>

theorem sampleFrames_spec_witness:
  "sampleFrames [10, 11, 12, 13, 14, 15, 16 :: nat] 3 = [Some 10, Some 12, Some 14] \<and>
   sampleFrames [10, 11 :: nat] 3 = [Some 10, Some 11]"
proof -
  have a: "[10, 11, 12, 13, 14, 15, 16 :: nat] \<noteq> []" by simp
  have b: "[10, 11 :: nat] \<noteq> []" by simp
  have c: "(0::nat) < 3" by simp
  have u: "[0..<(3::nat)] = [0, 1, 2]" by (simp add: upt_conv_Cons)
  show ?thesis
    using sampleFrames_spec [OF a c] sampleFrames_spec [OF b c]
    by (simp add: u)
qed

section \<open>Properties of the similarity matrix\<close>

lemma squareOf_row: "squareOf n m \<Longrightarrow> a < n \<Longrightarrow> length (m ! a) = n"
  by (simp add: squareOf_def)

lemma setCell_square:
  assumes "squareOf n m" and "i < n"
  shows "squareOf n (setCell m i j v)"
proof -
  have "set (m[i := (m ! i)[j := v]]) \<subseteq> insert ((m ! i)[j := v]) (set m)"
    by (rule set_update_subset_insert)
  moreover have "length ((m ! i)[j := v]) = n"
    using assms by (simp add: squareOf_row)
  ultimately show ?thesis
    using assms by (auto simp: squareOf_def setCell_def)
qed

lemma setCell_nth:
  assumes "squareOf n m" and "i < n" and "j < n" and "a < n" and "b < n"
  shows "setCell m i j v ! a ! b = (if a = i \<and> b = j then v else m ! a ! b)"
proof (cases "a = i")
  case True
  have "length m = n" using assms(1) by (simp add: squareOf_def)
  moreover have "length (m ! i) = n" using assms by (simp add: squareOf_row)
  ultimately show ?thesis using True assms by (simp add: setCell_def nth_list_update)
next
  case False
  have "length m = n" using assms(1) by (simp add: squareOf_def)
  then show ?thesis using False assms by (simp add: setCell_def)
qed

lemma simVal_sym: "simVal n a b = simVal n b a"
  by (simp add: simVal_def abs_minus_commute)

lemma similarityInner_inv:
  "squareOf n m \<Longrightarrow> i < n \<Longrightarrow>
   squareOf n (similarityInner n i j m) \<and>
   (\<forall>a<n. \<forall>b<n. similarityInner n i j m ! a ! b =
      (if (a = i \<and> j \<le> b) \<or> (b = i \<and> j \<le> a) then simVal n a b else m ! a ! b))"
proof (induction n i j m rule: similarityInner.induct)
  case (1 n i j m)
  show ?case
  proof (cases "j < n")
    case False
    then show ?thesis using "1.prems" by (subst (1 2) similarityInner.simps) auto
  next
    case True
    define m' where "m' = (if i = j then setCell m i j 1
              else (let similarity = 1 - \<bar>real_of_int (int i - int j)\<bar> / real n
                    in setCell (setCell m i j similarity) j i similarity))"
    have sq: "squareOf n m'"
      using "1.prems" True by (simp add: m'_def Let_def setCell_square)
    have ent: "m' ! a ! b = (if (a = i \<and> b = j) \<or> (a = j \<and> b = i) then simVal n a b else m ! a ! b)"
      if "a < n" "b < n" for a b
    proof (cases "i = j")
      case eq: True
      then show ?thesis
        using "1.prems" True that by (auto simp: m'_def setCell_nth [where n = n] simVal_def)
    next
      case neq: False
      define v where "v = 1 - \<bar>real_of_int (int i - int j)\<bar> / real n"
      have m': "m' = setCell (setCell m i j v) j i v"
        using neq by (simp add: m'_def v_def Let_def)
      have sq1: "squareOf n (setCell m i j v)"
        using "1.prems" by (rule setCell_square)
      have "m' ! a ! b = (if a = j \<and> b = i then v else setCell m i j v ! a ! b)"
        unfolding m' using sq1 True "1.prems"(2) that by (rule setCell_nth)
      also have "setCell m i j v ! a ! b = (if a = i \<and> b = j then v else m ! a ! b)"
        using "1.prems" True that by (rule setCell_nth)
      finally show ?thesis
        using neq by (auto simp: simVal_def v_def abs_minus_commute)
    qed
    have unf: "similarityInner n i j m = similarityInner n i (Suc j) m'"
      using True by (subst similarityInner.simps) (simp add: m'_def)
    have IH: "squareOf n (similarityInner n i (Suc j) m') \<and>
      (\<forall>a<n. \<forall>b<n. similarityInner n i (Suc j) m' ! a ! b =
        (if (a = i \<and> Suc j \<le> b) \<or> (b = i \<and> Suc j \<le> a) then simVal n a b else m' ! a ! b))"
      using "1.IH" [OF True sq [unfolded m'_def] "1.prems"(2)] by (simp add: m'_def)
    have "similarityInner n i (Suc j) m' ! a ! b =
        (if (a = i \<and> j \<le> b) \<or> (b = i \<and> j \<le> a) then simVal n a b else m ! a ! b)"
      if ab: "a < n" "b < n" for a b
    proof -
      have e1: "similarityInner n i (Suc j) m' ! a ! b =
        (if (a = i \<and> Suc j \<le> b) \<or> (b = i \<and> Suc j \<le> a) then simVal n a b else m' ! a ! b)"
        using IH ab by blast
      have e2: "m' ! a ! b =
        (if (a = i \<and> b = j) \<or> (a = j \<and> b = i) then simVal n a b else m ! a ! b)"
        using ent ab by blast
      have s1: "j \<le> b \<longleftrightarrow> b = j \<or> Suc j \<le> b" and s2: "j \<le> a \<longleftrightarrow> a = j \<or> Suc j \<le> a"
        by arith+
      show ?thesis unfolding e1 e2 s1 s2 by auto
    qed
    then show ?thesis
      unfolding unf using IH by blast
  qed
qed

lemma similarityOuter_inv:
  "squareOf n m \<Longrightarrow>
   squareOf n (similarityOuter n i m) \<and>
   (\<forall>a<n. \<forall>b<n. similarityOuter n i m ! a ! b =
      (if i \<le> a \<and> i \<le> b then simVal n a b else m ! a ! b))"
proof (induction n i m rule: similarityOuter.induct)
  case (1 n i m)
  show ?case
  proof (cases "i < n")
    case False
    then show ?thesis using "1.prems" by (subst (1 2) similarityOuter.simps) auto
  next
    case True
    note inner = similarityInner_inv [OF "1.prems" True, of i]
    have unf: "similarityOuter n i m = similarityOuter n (Suc i) (similarityInner n i i m)"
      using True by (subst similarityOuter.simps) simp
    note IH = "1.IH" [OF True conjunct1 [OF inner]]
    have "similarityOuter n (Suc i) (similarityInner n i i m) ! a ! b =
        (if i \<le> a \<and> i \<le> b then simVal n a b else m ! a ! b)"
      if ab: "a < n" "b < n" for a b
    proof -
      have e1: "similarityOuter n (Suc i) (similarityInner n i i m) ! a ! b =
        (if Suc i \<le> a \<and> Suc i \<le> b then simVal n a b else similarityInner n i i m ! a ! b)"
        using IH ab by blast
      have e2: "similarityInner n i i m ! a ! b =
        (if (a = i \<and> i \<le> b) \<or> (b = i \<and> i \<le> a) then simVal n a b else m ! a ! b)"
        using inner ab by blast
      have s: "i \<le> a \<and> i \<le> b \<longleftrightarrow>
          (Suc i \<le> a \<and> Suc i \<le> b) \<or> (a = i \<and> i \<le> b) \<or> (b = i \<and> i \<le> a)"
        by arith
      show ?thesis unfolding e1 e2 s by auto
    qed
    then show ?thesis
      unfolding unf using IH by blast
  qed
qed

lemma calculateSimilarityMatrix_Some:
  assumes "fb \<noteq> []"
  shows "squareOf (length fb) (calculateSimilarityMatrix (Some fb)) \<and>
    (\<forall>a<length fb. \<forall>b<length fb.
       calculateSimilarityMatrix (Some fb) ! a ! b = simVal (length fb) a b)"
proof -
  have "squareOf (length fb) (replicate (length fb) (replicate (length fb) 0))"
    by (simp add: squareOf_def)
  from similarityOuter_inv [OF this, of 0] show ?thesis
    using assms by (simp add: calculateSimilarityMatrix_def Let_def)
qed

lemma simVal_range:
  assumes "a < n" and "b < n"
  shows "0 \<le> simVal n a b \<and> simVal n a b \<le> 1"
proof -
  have "\<bar>real_of_int (int a - int b)\<bar> \<le> real n" using assms by (simp add: abs_le_iff)
  moreover have "0 < real n" using assms by simp
  ultimately have "\<bar>real_of_int (int a - int b)\<bar> / real n \<le> 1" by (simp add: divide_le_eq)
  moreover have "0 \<le> \<bar>real_of_int (int a - int b)\<bar> / real n" by simp
  ultimately show ?thesis by (simp add: simVal_def)
qed

text \<open>
  C1. For every frame buffer (also a missing or an empty one) the matrix builder returns a
  square matrix with one row per frame that is symmetric, has \<open>1\<close> on its diagonal and has
  all its entries in \<open>[0,1]\<close>.
\<close>

theorem similarity_matrix_invariant:
  fixes fb :: "'f list option"
  defines "m \<equiv> calculateSimilarityMatrix fb"
  shows "length m = (case fb of None \<Rightarrow> 0 | Some b \<Rightarrow> length b) \<and>
         (\<forall>row \<in> set m. length row = length m) \<and>
         (\<forall>i < length m. \<forall>j < length m.
            m ! i ! j = m ! j ! i \<and> m ! i ! i = 1 \<and> 0 \<le> m ! i ! j \<and> m ! i ! j \<le> 1)"
proof (cases "\<exists>b. fb = Some b \<and> b \<noteq> []")
  case False
  then have "m = []" and "(case fb of None \<Rightarrow> 0 | Some b \<Rightarrow> length b) = 0"
    by (auto simp: m_def calculateSimilarityMatrix_def split: option.splits)
  then show ?thesis by simp
next
  case True
  then obtain b where fb: "fb = Some b" and ne: "b \<noteq> []" by blast
  note main = calculateSimilarityMatrix_Some [OF ne]
  have len: "length m = length b"
    using main by (simp add: m_def fb squareOf_def)
  have rows: "\<forall>row \<in> set m. length row = length m"
    using main by (simp add: m_def fb squareOf_def)
  have ent: "\<forall>i < length m. \<forall>j < length m. m ! i ! j = simVal (length b) i j"
    using main len by (simp add: m_def fb)
  have cell: "m ! i ! j = m ! j ! i \<and> m ! i ! i = 1 \<and> 0 \<le> m ! i ! j \<and> m ! i ! j \<le> 1"
    if "i < length m" "j < length m" for i j
  proof -
    have "m ! i ! j = simVal (length b) i j" "m ! j ! i = simVal (length b) j i"
      "m ! i ! i = simVal (length b) i i"
      using ent that by simp_all
    moreover have "simVal (length b) i i = 1" by (simp add: simVal_def)
    moreover have "0 \<le> simVal (length b) i j \<and> simVal (length b) i j \<le> 1"
      using that len by (intro simVal_range) simp_all
    ultimately show ?thesis using simVal_sym [of "length b" i j] by simp
  qed
  show ?thesis
    using len rows cell by (simp add: fb)
qed

text \<open>
  The matrix of a buffer of three frames.
\<close>

theorem similarity_matrix_invariant_witness:
  "length (calculateSimilarityMatrix (Some [(), (), ()])) = 3 \<and>
   length (calculateSimilarityMatrix (Some [(), (), ()]) ! 0) = 3 \<and>
   calculateSimilarityMatrix (Some [(), (), ()]) ! 0 ! 2 =
     calculateSimilarityMatrix (Some [(), (), ()]) ! 2 ! 0 \<and>
   calculateSimilarityMatrix (Some [(), (), ()]) ! 1 ! 1 = 1 \<and>
   0 \<le> calculateSimilarityMatrix (Some [(), (), ()]) ! 0 ! 2 \<and>
   calculateSimilarityMatrix (Some [(), (), ()]) ! 0 ! 2 \<le> 1 \<and>
   calculateSimilarityMatrix (Some [(), (), ()]) ! 0 ! 2 = 1 / 3"
proof -
  note t = similarity_matrix_invariant [of "Some [(), (), ()]"]
  have len: "length (calculateSimilarityMatrix (Some [(), (), ()])) = 3"
    using t by simp
  have "calculateSimilarityMatrix (Some [(), (), ()]) ! 0 \<in>
      set (calculateSimilarityMatrix (Some [(), (), ()]))"
    using len by (intro nth_mem) simp
  then have row: "length (calculateSimilarityMatrix (Some [(), (), ()]) ! 0) = 3"
    using t len by simp
  have v: "calculateSimilarityMatrix (Some [(), (), ()]) ! 0 ! 2 = 1 / 3"
    by code_simp
  have a: "calculateSimilarityMatrix (Some [(), (), ()]) ! i ! j =
             calculateSimilarityMatrix (Some [(), (), ()]) ! j ! i \<and>
           calculateSimilarityMatrix (Some [(), (), ()]) ! i ! i = 1 \<and>
           0 \<le> calculateSimilarityMatrix (Some [(), (), ()]) ! i ! j \<and>
           calculateSimilarityMatrix (Some [(), (), ()]) ! i ! j \<le> 1"
    if "i < 3" "j < 3" for i j
    using t len that by simp
  show ?thesis using a [of 0 2] a [of 1 1] len row v by simp
qed

section \<open>Properties of the candidate generator\<close>

lemma candidatesInner_eq:
  "candidatesInner m n sf ef acc =
     acc @ concat (map (algoAt m sf) [ef..<min n (sf + maxFrames)])"
proof (induction m n sf ef acc rule: candidatesInner.induct)
  case (1 m n sf ef acc)
  show ?case
  proof (cases "ef < min n (sf + maxFrames)")
    case True
    have push: "(case matrixAt m sf ef of
                   None \<Rightarrow> acc
                 | Some sim \<Rightarrow> if sim > 0.8 then acc @ [algorithmCandidate sf ef sim] else acc) =
                acc @ algoAt m sf ef"
      by (simp add: algoAt_def split: option.splits)
    have "candidatesInner m n sf ef acc = candidatesInner m n sf (Suc ef) (acc @ algoAt m sf ef)"
      by (subst candidatesInner.simps) (simp only: True if_True push)
    also have "\<dots> = (acc @ algoAt m sf ef) @ concat (map (algoAt m sf) [Suc ef..<min n (sf + maxFrames)])"
      using "1.IH" [OF True] unfolding push .
    also have "\<dots> = acc @ concat (map (algoAt m sf) [ef..<min n (sf + maxFrames)])"
      using True by (simp add: upt_conv_Cons)
    finally show ?thesis .
  next
    case False
    from False have "min n (sf + maxFrames) \<le> ef" by linarith
    then have e: "[ef..<min n (sf + maxFrames)] = []" by simp
    have r: "candidatesInner m n sf ef acc = acc"
      by (subst candidatesInner.simps) (simp only: False if_False)
    show ?thesis unfolding e r by simp
  qed
qed

lemma candidatesOuter_eq:
  "candidatesOuter m n sf acc =
     acc @ concat (map (\<lambda>s. concat (map (algoAt m s) [s + minFrames..<min n (s + maxFrames)]))
                      [sf..<n - minFrames])"
proof (induction m n sf acc rule: candidatesOuter.induct)
  case (1 m n sf acc)
  show ?case
  proof (cases "int sf < int n - int minFrames")
    case True
    then have lt: "sf < n - minFrames" by linarith
    have "candidatesOuter m n sf acc =
        candidatesOuter m n (Suc sf) (candidatesInner m n sf (sf + minFrames) acc)"
      using True by (subst candidatesOuter.simps) simp
    also have "\<dots> = candidatesInner m n sf (sf + minFrames) acc @
        concat (map (\<lambda>s. concat (map (algoAt m s) [s + minFrames..<min n (s + maxFrames)]))
                      [Suc sf..<n - minFrames])"
      using "1.IH" [OF True] by simp
    also have "\<dots> = acc @ concat (map (\<lambda>s. concat (map (algoAt m s) [s + minFrames..<min n (s + maxFrames)]))
                      [sf..<n - minFrames])"
      using lt by (simp add: candidatesInner_eq upt_conv_Cons)
    finally show ?thesis .
  next
    case False
    from False have "n - minFrames \<le> sf" by linarith
    then have e: "[sf..<n - minFrames] = []" by simp
    have r: "candidatesOuter m n sf acc = acc"
      by (subst candidatesOuter.simps) (simp only: False if_False)
    show ?thesis unfolding e r by simp
  qed
qed

lemma findLoopCandidates_eq:
  "findLoopCandidates m sg = map geminiCandidate sg @ algoPart m"
  by (simp add: findLoopCandidates_def Let_def candidatesOuter_eq algoPart_def)

lemma minFrames_eq: "minFrames = 60"
  by (simp add: minFrames_def frameRate_def)

lemma maxFrames_eq: "maxFrames = 450"
  by (simp add: maxFrames_def frameRate_def)

lemma algoPart_elem:
  assumes "c \<in> set (algoPart m)"
  shows "\<exists>sf ef sim. c = algorithmCandidate sf ef sim \<and> sf + 60 \<le> ef \<and> ef < sf + 450 \<and>
           ef < length m \<and> matrixAt m sf ef = Some sim \<and> sim > 0.8"
proof -
  from assms obtain sf ef where ef: "ef \<in> set [sf + minFrames..<min (length m) (sf + maxFrames)]"
    and c: "c \<in> set (algoAt m sf ef)"
    by (auto simp: algoPart_def)
  from c obtain sim where "matrixAt m sf ef = Some sim" "sim > 0.8" "c = algorithmCandidate sf ef sim"
    by (cases "matrixAt m sf ef") (auto simp: algoAt_def split: if_splits)
  moreover from ef have "sf + 60 \<le> ef" "ef < sf + 450" "ef < length m"
    by (simp_all add: minFrames_eq maxFrames_eq)
  ultimately show ?thesis by blast
qed

lemma algoPart_short: "length m \<le> 60 \<Longrightarrow> algoPart m = []"
  by (simp add: algoPart_def minFrames_eq)

lemma source_geminiCandidate: "source (geminiCandidate s) = ''gemini''"
  by (simp add: geminiCandidate_def)

lemma source_algorithmCandidate: "source (algorithmCandidate sf ef sim) = ''algorithm''"
  by (simp add: algorithmCandidate_def)

lemma algoPart_source: "c \<in> set (algoPart m) \<Longrightarrow> source c = ''algorithm''"
  using algoPart_elem source_algorithmCandidate by blast

lemma calculateSimilarityMatrix_length:
  "length (calculateSimilarityMatrix (Some fb)) = length fb"
proof (cases "fb = []")
  case True
  then show ?thesis by (simp add: calculateSimilarityMatrix_def)
next
  case False
  then show ?thesis using calculateSimilarityMatrix_Some [OF False] by (simp add: squareOf_def)
qed

lemma algorithmCandidate_duration:
  assumes "sf + 60 \<le> ef" and "ef < sf + 450"
  shows "60 \<le> endFrame (algorithmCandidate sf ef sim) - startFrame (algorithmCandidate sf ef sim) \<and>
         endFrame (algorithmCandidate sf ef sim) - startFrame (algorithmCandidate sf ef sim) < 450 \<and>
         duration (algorithmCandidate sf ef sim) =
           (endFrame (algorithmCandidate sf ef sim) - startFrame (algorithmCandidate sf ef sim)) / 30 \<and>
         2 \<le> duration (algorithmCandidate sf ef sim) \<and>
         duration (algorithmCandidate sf ef sim) < 15"
proof -
  have "real sf + 60 \<le> real ef" "real ef < real sf + 450"
    using assms by linarith+
  then show ?thesis
    by (simp add: algorithmCandidate_def frameRate_def)
qed

text \<open>
  C2, as the code has it. Every candidate with source \<open>algorithm\<close> joins two frames that are
  at least \<open>60\<close> and fewer than \<open>450\<close> frames apart, and its \<open>duration\<close> field, the frame
  distance divided by \<open>30\<close>, is at least \<open>2\<close> and less than \<open>15\<close> seconds: the bounds are the
  fixed \<open>minFrames = 60\<close> and \<open>maxFrames = 450\<close> at \<open>30\<close> frames a second, not configured
  ones. The candidates with source \<open>gemini\<close> are the advisory suggestions, all of them and
  in their order, each with the duration \<open>(endFrame - startFrame) / 30\<close> it came with: none
  is dropped and none is clamped.
\<close>

theorem candidate_durations:
  "(\<forall>c \<in> set (findLoopCandidates m sg).
      source c = ''algorithm'' \<longrightarrow>
        60 \<le> endFrame c - startFrame c \<and> endFrame c - startFrame c < 450 \<and>
        duration c = (endFrame c - startFrame c) / 30 \<and>
        2 \<le> duration c \<and> duration c < 15) \<and>
   filter (\<lambda>c. source c = ''gemini'') (findLoopCandidates m sg) = map geminiCandidate sg \<and>
   (\<forall>s \<in> set sg. duration (geminiCandidate s) = (sEndFrame s - sStartFrame s) / 30)"
proof (intro conjI ballI impI)
  fix c
  assume c: "c \<in> set (findLoopCandidates m sg)" and alg: "source c = ''algorithm''"
  from c alg have "c \<in> set (algoPart m)"
    by (auto simp: findLoopCandidates_eq source_geminiCandidate)
  then obtain sf ef sim where "c = algorithmCandidate sf ef sim" "sf + 60 \<le> ef" "ef < sf + 450"
    using algoPart_elem by blast
  then have *: "60 \<le> endFrame c - startFrame c \<and> endFrame c - startFrame c < 450 \<and>
      duration c = (endFrame c - startFrame c) / 30 \<and> 2 \<le> duration c \<and> duration c < 15"
    using algorithmCandidate_duration by blast
  from * show "60 \<le> endFrame c - startFrame c" by simp
  from * show "endFrame c - startFrame c < 450" by simp
  from * show "duration c = (endFrame c - startFrame c) / 30" by simp
  from * show "2 \<le> duration c" by simp
  from * show "duration c < 15" by simp
next
  have "filter (\<lambda>c. source c = ''gemini'') (map geminiCandidate sg) = map geminiCandidate sg"
    by (simp add: filter_map o_def source_geminiCandidate)
  moreover have "filter (\<lambda>c. source c = ''gemini'') (algoPart m) = []"
    by (auto simp: filter_empty_conv dest: algoPart_source)
  ultimately show "filter (\<lambda>c. source c = ''gemini'') (findLoopCandidates m sg) = map geminiCandidate sg"
    by (simp add: findLoopCandidates_eq)
next
  fix s
  show "duration (geminiCandidate s) = (sEndFrame s - sStartFrame s) / 30"
    by (simp add: geminiCandidate_def frameRate_def)
qed

text \<open>
  A matrix with one visited pair of frames, \<open>60\<close> apart and above the threshold, and one
  suggestion.
\<close>

theorem candidate_durations_witness:
  "algorithmCandidate 0 60 (81 / 100) \<in>
     set (findLoopCandidates (replicate 61 (replicate 61 (81 / 100)))
            [\<lparr>sStartFrame = 6, sEndFrame = 24, confidence = 0.92, sTransitionType = None\<rparr>]) \<and>
   source (algorithmCandidate 0 60 (81 / 100)) = ''algorithm'' \<and>
   2 \<le> duration (algorithmCandidate 0 60 (81 / 100)) \<and>
   duration (algorithmCandidate 0 60 (81 / 100)) < 15 \<and>
   duration (geminiCandidate
     \<lparr>sStartFrame = 6, sEndFrame = 24, confidence = 0.92, sTransitionType = None\<rparr>) = 3 / 5"
proof -
  let ?m = "replicate 61 (replicate 61 (81 / 100 :: real))"
  let ?s = "\<lparr>sStartFrame = 6, sEndFrame = 24, confidence = 0.92, sTransitionType = None\<rparr>"
  have ev: "findLoopCandidates ?m [?s] = [geminiCandidate ?s, algorithmCandidate 0 60 (81 / 100)]"
    by (simp add: findLoopCandidates_eq algoPart_def minFrames_eq maxFrames_eq algoAt_def
          matrixAt_def nthJS_def)
  have mem: "algorithmCandidate 0 60 (81 / 100) \<in> set (findLoopCandidates ?m [?s])"
    unfolding ev by simp
  have src: "source (algorithmCandidate 0 60 (81 / 100)) = ''algorithm''"
    by (simp add: algorithmCandidate_def)
  note t = candidate_durations [of ?m "[?s]"]
  from t mem src have "2 \<le> duration (algorithmCandidate 0 60 (81 / 100)) \<and>
      duration (algorithmCandidate 0 60 (81 / 100)) < 15"
    by blast
  moreover from t have "duration (geminiCandidate ?s) = 3 / 5" by simp
  ultimately show ?thesis using mem src by simp
qed

text \<open>
  The built-in client on the buffer of \<open>30\<close> frames: its suggestion, frames \<open>6\<close> to \<open>24\<close>,
  becomes a candidate whose \<open>duration\<close> is \<open>0.6\<close> seconds, as is \<open>endTime - startTime\<close>,
  shorter than the minimum of \<open>2\<close> seconds.
\<close>

theorem candidate_durations_counterexample:
  "findLoopCandidates (calculateSimilarityMatrix (Some (replicate 30 ()))) (stubGeminiSuggestions 30) =
     [\<lparr>startFrame = 6, endFrame = 24, startTime = 1 / 5, endTime = 4 / 5, duration = 3 / 5,
       similarity = 23 / 25, source = ''gemini'', transitionType = ''crossfade''\<rparr>] \<and>
   \<not> (2 \<le> (3 / 5 :: real)) \<and> \<not> (2 \<le> (4 / 5 - 1 / 5 :: real))"
proof -
  have "length (calculateSimilarityMatrix (Some (replicate 30 ()))) \<le> 60"
    by (simp add: calculateSimilarityMatrix_length)
  then have "algoPart (calculateSimilarityMatrix (Some (replicate 30 ()))) = []"
    by (rule algoPart_short)
  then show ?thesis
    by (simp add: findLoopCandidates_eq stubGeminiSuggestions_def geminiCandidate_def frameRate_def)
qed

section \<open>The single pass of candidate generation\<close>

lemma matrixAt_mem:
  assumes "matrixAt m i j = Some v"
  shows "\<exists>row \<in> set m. v \<in> set row"
proof -
  from assms have "i < length m" and "j < length (m ! i)" and "v = m ! i ! j"
    by (auto simp: matrixAt_def nthJS_def split: option.splits if_splits)
  then show ?thesis by (metis nth_mem)
qed

lemma algoPart_below_threshold:
  assumes "\<forall>row \<in> set m. \<forall>v \<in> set row. v \<le> 0.8"
  shows "algoPart m = []"
proof (rule ccontr)
  assume "algoPart m \<noteq> []"
  then obtain c where "c \<in> set (algoPart m)" by (cases "algoPart m") auto
  then obtain sf ef sim where "matrixAt m sf ef = Some sim" and gt: "sim > 0.8"
    using algoPart_elem by blast
  then obtain row where "row \<in> set m" "sim \<in> set row" using matrixAt_mem by blast
  with assms have "sim \<le> 0.8" by blast
  with gt show False by simp
qed

lemma in_concat_map: "x \<in> set xs \<Longrightarrow> y \<in> set (f x) \<Longrightarrow> y \<in> set (concat (map f xs))"
  by auto

lemma algoPart_emits:
  assumes "sf + 60 \<le> ef" and "ef < sf + 450" and "ef < length m"
    and "matrixAt m sf ef = Some sim" and "0.8 < sim"
  shows "algorithmCandidate sf ef sim \<in> set (algoPart m)"
proof -
  have sf: "sf \<in> set [0..<length m - minFrames]"
    using assms by (simp add: minFrames_eq)
  have ef: "ef \<in> set [sf + minFrames..<min (length m) (sf + maxFrames)]"
    using assms by (simp add: minFrames_eq maxFrames_eq)
  have "algoAt m sf ef = [algorithmCandidate sf ef sim]"
    using assms by (simp add: algoAt_def)
  then have mem: "algorithmCandidate sf ef sim \<in> set (algoAt m sf ef)" by simp
  have inner: "algorithmCandidate sf ef sim \<in>
      set (concat (map (algoAt m sf) [sf + minFrames..<min (length m) (sf + maxFrames)]))"
    using ef mem by (rule in_concat_map)
  show ?thesis
    unfolding algoPart_def using sf inner by (rule in_concat_map)
qed

lemma algoPart_unfold:
  "algoPart m =
     concat (map (\<lambda>sf. concat (map (\<lambda>ef.
         case matrixAt m sf ef of
           None \<Rightarrow> []
         | Some sim \<Rightarrow> if 0.8 < sim then [algorithmCandidate sf ef sim] else [])
       [sf + 60..<min (length m) (sf + 450)])) [0..<length m - 60])"
  by (simp add: algoPart_def algoAt_def minFrames_eq maxFrames_eq cong: map_cong)


text \<open>
  C6, as the code has it. Candidate generation makes a single pass and has neither a retry
  nor a failure. After the advisory candidates it visits the pairs of frames with
  \<open>start + 60 \<le> end < min(frameCount, start + 450)\<close> once, in the order of the loops, and
  emits for each visited pair exactly one candidate if the pair's similarity exceeds the
  fixed threshold \<open>0.8\<close> and none otherwise; so the candidates with source \<open>algorithm\<close> are
  exactly those of the visited pairs above \<open>0.8\<close>. When no entry of the matrix exceeds
  \<open>0.8\<close>, and whenever the matrix has at most \<open>60\<close> samples (so also fewer than \<open>2\<close>), the
  result is the list of the advisory candidates.
\<close>

theorem generation_single_pass:
  "findLoopCandidates m sg =
     map geminiCandidate sg @
     concat (map (\<lambda>sf. concat (map (\<lambda>ef.
         case matrixAt m sf ef of
           None \<Rightarrow> []
         | Some sim \<Rightarrow> if 0.8 < sim then [algorithmCandidate sf ef sim] else [])
       [sf + 60..<min (length m) (sf + 450)])) [0..<length m - 60]) \<and>
   (c \<in> set (findLoopCandidates m sg) \<and> source c = ''algorithm'' \<longleftrightarrow>
      (\<exists>sf ef sim. c = algorithmCandidate sf ef sim \<and> sf + 60 \<le> ef \<and> ef < sf + 450 \<and>
         ef < length m \<and> matrixAt m sf ef = Some sim \<and> 0.8 < sim)) \<and>
   ((\<forall>row \<in> set m. \<forall>v \<in> set row. v \<le> 0.8) \<or> length m \<le> 60 \<longrightarrow>
      findLoopCandidates m sg = map geminiCandidate sg)"
proof (intro conjI impI)
  show "findLoopCandidates m sg =
     map geminiCandidate sg @
     concat (map (\<lambda>sf. concat (map (\<lambda>ef.
         case matrixAt m sf ef of
           None \<Rightarrow> []
         | Some sim \<Rightarrow> if 0.8 < sim then [algorithmCandidate sf ef sim] else [])
       [sf + 60..<min (length m) (sf + 450)])) [0..<length m - 60])"
    unfolding findLoopCandidates_eq algoPart_unfold ..
next
  show "c \<in> set (findLoopCandidates m sg) \<and> source c = ''algorithm'' \<longleftrightarrow>
      (\<exists>sf ef sim. c = algorithmCandidate sf ef sim \<and> sf + 60 \<le> ef \<and> ef < sf + 450 \<and>
         ef < length m \<and> matrixAt m sf ef = Some sim \<and> 0.8 < sim)"
  proof
    assume "c \<in> set (findLoopCandidates m sg) \<and> source c = ''algorithm''"
    then have "c \<in> set (algoPart m)"
      by (auto simp: findLoopCandidates_eq source_geminiCandidate)
    then show "\<exists>sf ef sim. c = algorithmCandidate sf ef sim \<and> sf + 60 \<le> ef \<and> ef < sf + 450 \<and>
         ef < length m \<and> matrixAt m sf ef = Some sim \<and> 0.8 < sim"
      by (rule algoPart_elem)
  next
    assume "\<exists>sf ef sim. c = algorithmCandidate sf ef sim \<and> sf + 60 \<le> ef \<and> ef < sf + 450 \<and>
         ef < length m \<and> matrixAt m sf ef = Some sim \<and> 0.8 < sim"
    then obtain sf ef sim where c: "c = algorithmCandidate sf ef sim"
      and *: "sf + 60 \<le> ef" "ef < sf + 450" "ef < length m" "matrixAt m sf ef = Some sim" "0.8 < sim"
      by blast
    from * have "algorithmCandidate sf ef sim \<in> set (algoPart m)" by (rule algoPart_emits)
    then show "c \<in> set (findLoopCandidates m sg) \<and> source c = ''algorithm''"
      by (simp add: c findLoopCandidates_eq source_algorithmCandidate)
  qed
next
  assume "(\<forall>row \<in> set m. \<forall>v \<in> set row. v \<le> 0.8) \<or> length m \<le> 60"
  then have "algoPart m = []"
    using algoPart_below_threshold algoPart_short by blast
  then show "findLoopCandidates m sg = map geminiCandidate sg"
    by (simp add: findLoopCandidates_eq)
qed

text \<open>
  A matrix of one sample gives an empty candidate list and an analysis that returns. A
  pair at similarity \<open>0.79\<close>, which a threshold lowered once by \<open>0.05\<close> would accept, is
  not found, and the empty list is returned.
\<close>

theorem generation_single_pass_counterexample:
  "findLoopCandidates [[1]] [] = [] \<and>
   analyzeMedia \<lparr>frameBuffer = Some [()], audioBuffer = None\<rparr> [] =
     Inr \<lparr>mediaInfo = \<lparr>miFrameCount = 1, miDuration = 1 / 30\<rparr>,
          loopCandidates = [], bestLoopPoint = None\<rparr> \<and>
   matrixAt (replicate 61 (replicate 61 (79 / 100))) 0 60 = Some (79 / 100) \<and>
   (0.8 - 0.05 :: real) \<le> 79 / 100 \<and>
   findLoopCandidates (replicate 61 (replicate 61 (79 / 100))) [] = []"
proof -
  have a: "findLoopCandidates [[1]] [] = []"
    by (simp add: findLoopCandidates_eq algoPart_short)
  have m1: "calculateSimilarityMatrix (Some [()]) = [[1]]"
    by code_simp
  have b: "analyzeMedia \<lparr>frameBuffer = Some [()], audioBuffer = None\<rparr> [] =
     Inr \<lparr>mediaInfo = \<lparr>miFrameCount = 1, miDuration = 1 / 30\<rparr>,
          loopCandidates = [], bestLoopPoint = None\<rparr>"
    by (simp add: analyzeMedia_def Let_def m1 a rankLoopCandidates_def nthJS_def)
  have c: "matrixAt (replicate 61 (replicate 61 (79 / 100))) 0 60 = Some (79 / 100)"
    by (simp add: matrixAt_def nthJS_def)
  have d: "findLoopCandidates (replicate 61 (replicate 61 (79 / 100))) [] = []"
    by (simp add: findLoopCandidates_eq algoPart_def minFrames_eq maxFrames_eq algoAt_def
          matrixAt_def nthJS_def)
  show ?thesis using a b c d by simp
qed

text \<open>
  The pair \<open>(0, 60)\<close> of a matrix of \<open>61\<close> samples is emitted at similarity \<open>0.81\<close> and not
  at \<open>0.79\<close>; a matrix of one sample gives no candidate.
\<close>

theorem generation_single_pass_witness:
  "algorithmCandidate 0 60 (81 / 100) \<in>
     set (findLoopCandidates (replicate 61 (replicate 61 (81 / 100))) []) \<and>
   source (algorithmCandidate 0 60 (81 / 100)) = ''algorithm'' \<and>
   findLoopCandidates (replicate 61 (replicate 61 (79 / 100))) [] = [] \<and>
   findLoopCandidates [[1]] [] = []"
proof -
  let ?lo = "replicate 61 (replicate 61 (79 / 100 :: real))"
  let ?hi = "replicate 61 (replicate 61 (81 / 100 :: real))"
  let ?c = "algorithmCandidate 0 60 (81 / 100)"
  have at: "matrixAt ?hi 0 60 = Some (81 / 100)"
    by (simp add: matrixAt_def nthJS_def)
  have "\<exists>sf ef sim. ?c = algorithmCandidate sf ef sim \<and> sf + 60 \<le> ef \<and> ef < sf + 450 \<and>
         ef < length ?hi \<and> matrixAt ?hi sf ef = Some sim \<and> 0.8 < sim"
  proof (intro exI conjI)
    show "?c = algorithmCandidate 0 60 (81 / 100)" ..
    show "(0::nat) + 60 \<le> 60" by simp
    show "(60::nat) < 0 + 450" by simp
    show "60 < length ?hi" by simp
    show "matrixAt ?hi 0 60 = Some (81 / 100)" by (rule at)
    show "(0.8 :: real) < 81 / 100" by simp
  qed
  with generation_single_pass [of ?hi "[]" ?c]
  have 1: "?c \<in> set (findLoopCandidates ?hi []) \<and> source ?c = ''algorithm''"
    by blast
  have lo: "\<forall>row \<in> set ?lo. \<forall>v \<in> set row. v \<le> 0.8" by simp
  have "findLoopCandidates ?lo [] = map geminiCandidate []"
    using generation_single_pass [of ?lo "[]" ?c, THEN conjunct2, THEN conjunct2] lo by blast
  then have 2: "findLoopCandidates ?lo [] = []" by simp
  have short: "length [[1 :: real]] \<le> 60" by simp
  have "findLoopCandidates [[1]] [] = map geminiCandidate []"
    using generation_single_pass [of "[[1]]" "[]" ?c, THEN conjunct2, THEN conjunct2] short
    by blast
  then have 3: "findLoopCandidates [[1]] [] = []" by simp
  show ?thesis using 1 2 3 by (intro conjI) simp_all
qed

section \<open>Properties of the ranker\<close>

lemma insertSorted_compareScore:
  "insertSorted compareScore x ys = insort_key (\<lambda>c. - score c) x ys"
  by (induction ys) (simp_all add: compareScore_def)

lemma sortJS_compareScore: "sortJS compareScore xs = sort_key (\<lambda>c. - score c) xs"
  by (induction xs) (simp_all add: insertSorted_compareScore)

lemma rankLoopCandidates_sort:
  "rankLoopCandidates cs = sort_key (\<lambda>c. - score c) (map scoreCandidate cs)"
  by (simp add: rankLoopCandidates_def sortJS_compareScore)

lemma mset_rankLoopCandidates:
  "mset (rankLoopCandidates cs) = mset (map scoreCandidate cs)"
  by (simp add: rankLoopCandidates_sort)

lemma truncate_scoreCandidate: "candidate.truncate (scoreCandidate c) = c"
  by (simp add: scoreCandidate_def Let_def candidate.truncate_def candidate.extend_def)

lemma score_scoreCandidate:
  "score (scoreCandidate c) =
     min 1 (max 0 (similarity c * 0.6 + (1 - \<bar>duration c - 5\<bar> / 10) * 0.3 +
                   (if source c = ''gemini'' then 0.1 else 0)))"
  by (simp add: scoreCandidate_def Let_def candidate.extend_def scored_candidate.fields_def)

lemma score_bounds: "0 \<le> score (scoreCandidate c) \<and> score (scoreCandidate c) \<le> 1"
  unfolding score_scoreCandidate by simp

lemma set_rankLoopCandidates: "set (rankLoopCandidates cs) = scoreCandidate ` set cs"
  by (simp add: rankLoopCandidates_sort)

text \<open>
  C9. The ranker returns as many candidates as it is given; its output is a permutation of
  the input candidates, each extended with its score and otherwise unchanged (dropping the
  score gives back the input, as a multiset); the empty list is ranked to the empty list.
\<close>

theorem rank_preserves_candidates:
  "length (rankLoopCandidates cs) = length cs \<and>
   mset (rankLoopCandidates cs) = mset (map scoreCandidate cs) \<and>
   candidate.truncate (scoreCandidate c) = c \<and>
   mset (map candidate.truncate (rankLoopCandidates cs)) = mset cs \<and>
   rankLoopCandidates [] = []"
proof -
  have "mset (map candidate.truncate (rankLoopCandidates cs)) =
      image_mset candidate.truncate (mset (rankLoopCandidates cs))"
    by (rule mset_map)
  also have "\<dots> = image_mset candidate.truncate (image_mset scoreCandidate (mset cs))"
    by (simp only: mset_rankLoopCandidates mset_map)
  also have "\<dots> = mset cs"
    by (simp add: multiset.map_comp o_def truncate_scoreCandidate)
  finally have perm: "mset (map candidate.truncate (rankLoopCandidates cs)) = mset cs" .
  have len: "length (rankLoopCandidates cs) = length cs"
    by (simp add: rankLoopCandidates_sort)
  have nil: "rankLoopCandidates [] = []"
    by (simp add: rankLoopCandidates_def)
  show ?thesis
    using perm len nil mset_rankLoopCandidates [of cs] truncate_scoreCandidate [of c]
    by (intro conjI)
qed

text \<open>
  C5, as the code has it. The ranker's output is in descending order of score, and the
  candidates of any one score keep the order they had in the input: the sort compares
  scores only, so no tie is broken by similarity, source or duration.
\<close>

theorem rank_order:
  "sorted_wrt (\<lambda>a b. score b \<le> score a) (rankLoopCandidates cs) \<and>
   filter (\<lambda>c. score c = k) (rankLoopCandidates cs) =
     filter (\<lambda>c. score c = k) (map scoreCandidate cs)"
proof
  have "sorted (map (\<lambda>c. - score c) (rankLoopCandidates cs))"
    by (simp add: rankLoopCandidates_sort)
  then show "sorted_wrt (\<lambda>a b. score b \<le> score a) (rankLoopCandidates cs)"
    by (simp add: sorted_map)
next
  have "filter (\<lambda>c. - score c = - k) (sort_key (\<lambda>c. - score c) (map scoreCandidate cs)) =
      filter (\<lambda>c. - score c = - k) (map scoreCandidate cs)"
    by (rule sort_key_stable)
  then show "filter (\<lambda>c. score c = k) (rankLoopCandidates cs) =
      filter (\<lambda>c. score c = k) (map scoreCandidate cs)"
    by (simp add: rankLoopCandidates_sort)
qed

text \<open>
  Two advisory candidates whose scores are both clamped to \<open>0\<close> stay in the order of the
  input, the one with the smaller similarity first.
\<close>

theorem rank_order_counterexample:
  "rankLoopCandidates
     [\<lparr>startFrame = 0, endFrame = 3000, startTime = 0, endTime = 100, duration = 100,
       similarity = 0, source = ''gemini'', transitionType = ''cut''\<rparr>,
      \<lparr>startFrame = 0, endFrame = 3000, startTime = 0, endTime = 100, duration = 100,
       similarity = 1 / 10, source = ''gemini'', transitionType = ''cut''\<rparr>] =
     [\<lparr>startFrame = 0, endFrame = 3000, startTime = 0, endTime = 100, duration = 100,
       similarity = 0, source = ''gemini'', transitionType = ''cut'', score = 0\<rparr>,
      \<lparr>startFrame = 0, endFrame = 3000, startTime = 0, endTime = 100, duration = 100,
       similarity = 1 / 10, source = ''gemini'', transitionType = ''cut'', score = 0\<rparr>] \<and>
   (0 :: real) < 1 / 10"
  by (simp add: rankLoopCandidates_def scoreCandidate_def Let_def candidate.extend_def
        scored_candidate.fields_def compareScore_def)

text \<open>
  C3, as the code has it. The ranker assigns \<open>score = 0.6 * similarity + 0.3 * durationFit +
  sourceBoost\<close> clamped to \<open>[0,1]\<close>, where \<open>durationFit = 1 - |duration - 5| / 10\<close> is not
  cut off at \<open>0\<close> and the ideal duration is the constant \<open>5\<close>, and \<open>sourceBoost\<close> is \<open>0.1\<close>
  exactly for source \<open>gemini\<close>. This is the specification's formula for \<open>idealDuration = 5\<close>
  whenever \<open>|duration - 5| \<le> 10\<close>. Every ranked candidate's score is in \<open>[0,1]\<close>.
\<close>

theorem score_formula:
  "score (scoreCandidate c) =
     min 1 (max 0 (0.6 * similarity c + 0.3 * (1 - \<bar>duration c - 5\<bar> / 10) +
                   (if source c = ''gemini'' then 0.1 else 0))) \<and>
   (\<bar>duration c - 5\<bar> \<le> 10 \<longrightarrow> score (scoreCandidate c) = specScore 5 c) \<and>
   (\<forall>r \<in> set (rankLoopCandidates cs). 0 \<le> score r \<and> score r \<le> 1)"
proof (intro conjI impI ballI)
  show eq: "score (scoreCandidate c) =
     min 1 (max 0 (0.6 * similarity c + 0.3 * (1 - \<bar>duration c - 5\<bar> / 10) +
                   (if source c = ''gemini'' then 0.1 else 0)))"
    unfolding score_scoreCandidate by (simp add: mult.commute)
  assume "\<bar>duration c - 5\<bar> \<le> 10"
  then have "specDurationFit 5 (duration c) = 1 - \<bar>duration c - 5\<bar> / 10"
    by (simp add: specDurationFit_def)
  then show "score (scoreCandidate c) = specScore 5 c"
    unfolding eq by (simp add: specScore_def)
next
  fix r assume "r \<in> set (rankLoopCandidates cs)"
  then obtain c' where r: "r = scoreCandidate c'"
    by (auto simp: set_rankLoopCandidates)
  show "0 \<le> score r" "score r \<le> 1"
    using score_bounds [of c'] by (simp_all add: r)
qed

text \<open>
  An advisory candidate of \<open>25\<close> seconds with similarity \<open>1\<close>: the code scores it \<open>0.4\<close>, the
  specification's formula \<open>0.7\<close>.
\<close>

theorem score_formula_counterexample:
  "score (scoreCandidate
     \<lparr>startFrame = 0, endFrame = 750, startTime = 0, endTime = 25, duration = 25,
      similarity = 1, source = ''gemini'', transitionType = ''cut''\<rparr>) = 2 / 5 \<and>
   specScore 5
     \<lparr>startFrame = 0, endFrame = 750, startTime = 0, endTime = 25, duration = 25,
      similarity = 1, source = ''gemini'', transitionType = ''cut''\<rparr> = 7 / 10"
  by (simp add: score_scoreCandidate specScore_def specDurationFit_def)

text \<open>
  A candidate of exactly \<open>5\<close> seconds with similarity \<open>0.9\<close>.
\<close>

theorem score_formula_witness:
  "score (scoreCandidate (algorithmCandidate 0 150 (9 / 10))) = 21 / 25 \<and>
   specScore 5 (algorithmCandidate 0 150 (9 / 10)) = 21 / 25 \<and>
   0 \<le> score (scoreCandidate (algorithmCandidate 0 150 (9 / 10))) \<and>
   score (scoreCandidate (algorithmCandidate 0 150 (9 / 10))) \<le> 1"
proof -
  let ?c = "algorithmCandidate 0 150 (9 / 10)"
  have d: "\<bar>duration ?c - 5\<bar> \<le> 10"
    by (simp add: algorithmCandidate_def frameRate_def)
  have mem: "scoreCandidate ?c \<in> set (rankLoopCandidates [?c])"
    by (simp add: rankLoopCandidates_def)
  note t = score_formula [of ?c "[?c]"]
  have v: "score (scoreCandidate ?c) = 21 / 25"
    using t by (simp add: algorithmCandidate_def frameRate_def)
  have s: "score (scoreCandidate ?c) = specScore 5 ?c"
    using t d by blast
  have b: "0 \<le> score (scoreCandidate ?c) \<and> score (scoreCandidate ?c) \<le> 1"
    using t mem by blast
  show ?thesis using v s b by simp
qed

section \<open>Properties of the assembled result\<close>

lemma analyzeMedia_loaded:
  assumes "frameBuffer az \<noteq> None \<or> audioBuffer az \<noteq> None"
  shows "\<exists>r. analyzeMedia az sg = Inr r \<and>
           bestLoopPoint r =
             nthJS (rankLoopCandidates
                      (findLoopCandidates (calculateSimilarityMatrix (frameBuffer az)) sg)) 0"
proof -
  from assms have "\<not> (frameBuffer az = None \<and> audioBuffer az = None)" by blast
  then show ?thesis by (simp add: analyzeMedia_def Let_def)
qed

lemma analyzeMedia_Inr:
  assumes "analyzeMedia az sg = Inr r"
  shows "bestLoopPoint r =
           nthJS (rankLoopCandidates
                    (findLoopCandidates (calculateSimilarityMatrix (frameBuffer az)) sg)) 0"
  using assms by (auto simp: analyzeMedia_def Let_def split: if_splits)

lemma nthJS_0: "nthJS xs 0 = (case xs of [] \<Rightarrow> None | x # _ \<Rightarrow> Some x)"
  by (cases xs) (simp_all add: nthJS_def)

text \<open>
  C8, as the code has it. When an optimization run returns, the ranked candidate list is
  not empty and \<open>seamlessScore\<close> is the score of its first (best) candidate times \<open>100\<close>, not
  rounded: a number in \<open>[0,100]\<close> that need not be an integer. A run returns whenever
  media is loaded and there is at least one candidate.
\<close>

theorem seamless_score:
  "(processMedia az sg = Inr r \<longrightarrow>
      (\<exists>best rest.
         rankLoopCandidates (findLoopCandidates (calculateSimilarityMatrix (frameBuffer az)) sg) =
           best # rest \<and>
         seamlessScore (qualityMetrics r) = score best * 100 \<and>
         0 \<le> seamlessScore (qualityMetrics r) \<and> seamlessScore (qualityMetrics r) \<le> 100)) \<and>
   ((frameBuffer az \<noteq> None \<or> audioBuffer az \<noteq> None) \<and>
    findLoopCandidates (calculateSimilarityMatrix (frameBuffer az)) sg \<noteq> [] \<longrightarrow>
      (\<exists>r'. processMedia az sg = Inr r'))"
proof (intro conjI impI)
  let ?ranked = "rankLoopCandidates (findLoopCandidates (calculateSimilarityMatrix (frameBuffer az)) sg)"
  assume ok: "processMedia az sg = Inr r"
  then obtain ar where ar: "analyzeMedia az sg = Inr ar"
    by (cases "analyzeMedia az sg") (simp_all add: processMedia_def)
  with ok obtain best where best: "bestLoopPoint ar = Some best"
    and r: "seamlessScore (qualityMetrics r) = score best * 100"
    by (cases "bestLoopPoint ar") (auto simp: processMedia_def)
  from analyzeMedia_Inr [OF ar] best have "nthJS ?ranked 0 = Some best" by simp
  then obtain rest where ranked: "?ranked = best # rest"
    by (cases ?ranked) (simp_all add: nthJS_0)
  then have "best \<in> set ?ranked" by simp
  then obtain c where "best = scoreCandidate c"
    by (auto simp: set_rankLoopCandidates)
  then have "0 \<le> score best" "score best \<le> 1"
    using score_bounds [of c] by simp_all
  then have "0 \<le> seamlessScore (qualityMetrics r)" "seamlessScore (qualityMetrics r) \<le> 100"
    by (simp_all add: r)
  with ranked r show "\<exists>best rest. ?ranked = best # rest \<and>
         seamlessScore (qualityMetrics r) = score best * 100 \<and>
         0 \<le> seamlessScore (qualityMetrics r) \<and> seamlessScore (qualityMetrics r) \<le> 100"
    by blast
next
  let ?cands = "findLoopCandidates (calculateSimilarityMatrix (frameBuffer az)) sg"
  assume a: "(frameBuffer az \<noteq> None \<or> audioBuffer az \<noteq> None) \<and> ?cands \<noteq> []"
  then obtain ar where ar: "analyzeMedia az sg = Inr ar"
    and b: "bestLoopPoint ar = nthJS (rankLoopCandidates ?cands) 0"
    using analyzeMedia_loaded [of az sg] by blast
  have "length (rankLoopCandidates ?cands) = length ?cands"
    by (simp add: rankLoopCandidates_sort)
  with a have "rankLoopCandidates ?cands \<noteq> []" by auto
  then obtain best where "bestLoopPoint ar = Some best"
    unfolding b by (cases "rankLoopCandidates ?cands") (simp_all add: nthJS_0)
  then show "\<exists>r'. processMedia az sg = Inr r'"
    by (simp add: processMedia_def ar)
qed

lemma default_run_candidates:
  "findLoopCandidates (calculateSimilarityMatrix (Some (replicate 30 ()))) sg = map geminiCandidate sg"
proof -
  have "length (calculateSimilarityMatrix (Some (replicate 30 ()))) \<le> 60"
    by (simp add: calculateSimilarityMatrix_length)
  then have "algoPart (calculateSimilarityMatrix (Some (replicate 30 ()))) = []"
    by (rule algoPart_short)
  then show ?thesis by (simp add: findLoopCandidates_eq)
qed

lemma processMedia_single:
  "processMedia \<lparr>frameBuffer = Some (replicate 30 ()), audioBuffer = None\<rparr> [s] =
     Inr \<lparr>loopStart = sStartFrame s / 30, loopEnd = sEndFrame s / 30,
          qualityMetrics =
            \<lparr>seamlessScore = score (scoreCandidate (geminiCandidate s)) * 100,
             compressionRatio = 7 / 10, artifactRating = 92\<rparr>\<rparr>"
  by (simp add: processMedia_def analyzeMedia_def Let_def default_run_candidates
        rankLoopCandidates_def nthJS_def scoreCandidate_def candidate.extend_def
        scored_candidate.fields_def geminiCandidate_def frameRate_def
        outputCompressionRatio_def outputArtifactRating_def)

text \<open>
  A suggestion with confidence \<open>0.925\<close> on the buffer of \<open>30\<close> frames: the score is \<open>0.823\<close>
  and \<open>seamlessScore\<close> is \<open>82.3\<close>, where the rounded value is \<open>82\<close>.
\<close>

theorem seamless_score_counterexample:
  "processMedia \<lparr>frameBuffer = Some (replicate 30 ()), audioBuffer = None\<rparr>
     [\<lparr>sStartFrame = 6, sEndFrame = 24, confidence = 925 / 1000, sTransitionType = None\<rparr>] =
     Inr \<lparr>loopStart = 1 / 5, loopEnd = 4 / 5,
          qualityMetrics =
            \<lparr>seamlessScore = 823 / 10, compressionRatio = 7 / 10, artifactRating = 92\<rparr>\<rparr> \<and>
   score (scoreCandidate (geminiCandidate
     \<lparr>sStartFrame = 6, sEndFrame = 24, confidence = 925 / 1000, sTransitionType = None\<rparr>)) =
     823 / 1000 \<and>
   specSeamlessScore (823 / 1000) = 82 \<and>
   (823 / 10 :: real) \<noteq> real_of_int 82"
proof -
  have s: "score (scoreCandidate (geminiCandidate
     \<lparr>sStartFrame = 6, sEndFrame = 24, confidence = 925 / 1000, sTransitionType = None\<rparr>)) =
     823 / 1000"
    by (simp add: score_scoreCandidate geminiCandidate_def frameRate_def)
  have f: "specSeamlessScore (823 / 1000) = 82"
    by (simp add: specSeamlessScore_def floor_eq_iff)
  show ?thesis
    unfolding processMedia_single s using f by simp
qed

text \<open>
  The built-in client on the buffer of \<open>30\<close> frames: \<open>seamlessScore\<close> is \<open>82\<close>.
\<close>

theorem seamless_score_witness:
  "processMedia \<lparr>frameBuffer = Some (replicate 30 ()), audioBuffer = None\<rparr>
     (stubGeminiSuggestions 30) =
     Inr \<lparr>loopStart = 1 / 5, loopEnd = 4 / 5,
          qualityMetrics =
            \<lparr>seamlessScore = 82, compressionRatio = 7 / 10, artifactRating = 92\<rparr>\<rparr> \<and>
   (\<exists>best rest.
      rankLoopCandidates (findLoopCandidates
        (calculateSimilarityMatrix (Some (replicate 30 ()))) (stubGeminiSuggestions 30)) = best # rest \<and>
      score best * 100 = 82) \<and>
   findLoopCandidates (calculateSimilarityMatrix (Some (replicate 30 ())))
     (stubGeminiSuggestions 30) \<noteq> [] \<and>
   (\<exists>r'. processMedia \<lparr>frameBuffer = Some (replicate 30 ()), audioBuffer = None\<rparr>
           (stubGeminiSuggestions 30) = Inr r')"
proof -
  let ?az = "\<lparr>frameBuffer = Some (replicate 30 ()), audioBuffer = None\<rparr>"
  let ?r = "\<lparr>loopStart = 1 / 5, loopEnd = 4 / 5,
          qualityMetrics =
            \<lparr>seamlessScore = 82, compressionRatio = 7 / 10, artifactRating = 92\<rparr>\<rparr>"
  have st: "stubGeminiSuggestions 30 =
      [\<lparr>sStartFrame = 6, sEndFrame = 24, confidence = 92 / 100, sTransitionType = Some ''crossfade''\<rparr>]"
    by (simp add: stubGeminiSuggestions_def)
  have s: "score (scoreCandidate (geminiCandidate
     \<lparr>sStartFrame = 6, sEndFrame = 24, confidence = 92 / 100, sTransitionType = Some ''crossfade''\<rparr>)) =
     82 / 100"
    by (simp add: score_scoreCandidate geminiCandidate_def frameRate_def)
  have run: "processMedia ?az (stubGeminiSuggestions 30) = Inr ?r"
    unfolding st processMedia_single s by simp
  note t = seamless_score [of ?az "stubGeminiSuggestions 30" ?r]
  from t run
  have "\<exists>best rest.
      rankLoopCandidates (findLoopCandidates
        (calculateSimilarityMatrix (frameBuffer ?az)) (stubGeminiSuggestions 30)) = best # rest \<and>
      seamlessScore (qualityMetrics ?r) = score best * 100"
    by blast
  then have best: "\<exists>best rest.
      rankLoopCandidates (findLoopCandidates
        (calculateSimilarityMatrix (Some (replicate 30 ()))) (stubGeminiSuggestions 30)) = best # rest \<and>
      score best * 100 = 82"
    by simp
  have ne: "findLoopCandidates (calculateSimilarityMatrix (Some (replicate 30 ())))
      (stubGeminiSuggestions 30) \<noteq> []"
    by (simp add: default_run_candidates st)
  have ld: "frameBuffer ?az \<noteq> None \<or> audioBuffer ?az \<noteq> None" by simp
  have "findLoopCandidates (calculateSimilarityMatrix (frameBuffer ?az))
      (stubGeminiSuggestions 30) \<noteq> []"
    using ne by simp
  with t ld have ex: "\<exists>r'. processMedia ?az (stubGeminiSuggestions 30) = Inr r'"
    by blast
  show ?thesis using run best ne ex by (intro conjI)
qed

section \<open>Properties of the transition selector\<close>



section \<open>Properties of the frame blend\<close>

text \<open>
  C7 does not hold of the code. For two units, with start-region frames \<open>[1,2]\<close>, \<open>[3,4]\<close>
  and end-region frames \<open>[5,6]\<close>, \<open>[7,8]\<close>, the weights are \<open>0\<close> and \<open>1\<close>, but the first output
  unit (weight \<open>0\<close>) is the start-region frame \<open>[1,2]\<close>, not the end-region frame \<open>[5,6]\<close>,
  and the last (weight \<open>1\<close>) is the end-region frame \<open>[7,8]\<close>, not the start-region frame
  \<open>[3,4]\<close>. For one unit the weight is \<open>0 / 0\<close>, not \<open>0\<close>, and the output unit is a black
  frame, not the end-region frame.
\<close>

theorem blend_direction_reversed:
  "createBlendedFrames [[1, 2], [3, 4]] [[5, 6], [7, 8]] 2 = Inr [[1, 2], [7, 8]] \<and>
   divJS (real 0) (real_of_int (int 2 - 1)) = Some 0 \<and>
   divJS (real 1) (real_of_int (int 2 - 1)) = Some 1 \<and>
   createBlendedFrames [[1, 2]] [[5, 6]] 1 = Inr [[0, 0]] \<and>
   divJS (real 0) (real_of_int (int 1 - 1)) = None"
proof -
  have a: "createBlendedFrames [[1, 2], [3, 4]] [[5, 6], [7, 8]] 2 = Inr [[1, 2], [7, 8]]"
    by code_simp
  have b: "createBlendedFrames [[1, 2]] [[5, 6]] 1 = Inr [[0, 0]]"
    by code_simp
  show ?thesis using a b by (simp add: divJS_def)
qed

end
